theory Spec2Isabelle
  imports Main "HOL-Library.Multiset"
begin

section \<open>JavaScript values\<close>

text \<open>
  The leaf values that flow through \<^verbatim>\<open>NostrReads.js\<close>: \<^verbatim>\<open>undefined\<close>, \<^verbatim>\<open>null\<close>,
  numbers and strings. Numbers are modelled as exact integers, which agrees with
  JavaScript doubles for integral values of magnitude up to \<open>2^53\<close>; a string is a
  sequence of code units below 256. A property that was never assigned reads as
  \<^verbatim>\<open>undefined\<close>, so "absent" is \<open>JUndefined\<close> (or \<open>None\<close> for an array-valued
  property).
\<close>

datatype jsval = JUndefined | JNull | JNum int | JStr string

text \<open>The result of \<^verbatim>\<open>parseInt\<close> and of the additions on it: a number or \<^verbatim>\<open>NaN\<close>.\<close>

datatype jsnum = NaN | Fin int

datatype js_error = TypeError

text \<open>\<^verbatim>\<open>ToBoolean\<close>: what \<^verbatim>\<open>if (v)\<close>, \<^verbatim>\<open>!v\<close>, \<^verbatim>\<open>a || b\<close> and \<^verbatim>\<open>a && b\<close> test.\<close>

fun truthy :: "jsval \<Rightarrow> bool" where
  "truthy JUndefined = False"
| "truthy JNull = False"
| "truthy (JNum n) = (n \<noteq> 0)"
| "truthy (JStr s) = (s \<noteq> [])"

text \<open>\<^verbatim>\<open>a || b\<close>\<close>

definition js_or :: "jsval \<Rightarrow> jsval \<Rightarrow> jsval" where
  "js_or a b = (if truthy a then a else b)"

text \<open>\<^verbatim>\<open>tag[i]\<close>: reading an array beyond its length gives \<^verbatim>\<open>undefined\<close>.\<close>

definition tag_at :: "jsval list \<Rightarrow> nat \<Rightarrow> jsval" where
  "tag_at tag i = (if i < length tag then tag ! i else JUndefined)"

text \<open>\<^verbatim>\<open>tag.slice(1)\<close>\<close>

definition slice1 :: "jsval list \<Rightarrow> jsval list" where
  "slice1 tag = drop 1 tag"

text \<open>Decimal rendering of a number, as \<^verbatim>\<open>Number.prototype.toString\<close> does for integers.\<close>

fun digits :: "nat \<Rightarrow> string" where
  "digits n = (if n < 10 then [''0123456789'' ! n]
               else digits (n div 10) @ [''0123456789'' ! (n mod 10)])"

declare digits.simps [simp del]

definition int_toString :: "int \<Rightarrow> string" where
  "int_toString n = (if n < 0 then CHR ''-'' # digits (nat (- n)) else digits (nat n))"

text \<open>The abstract operation \<^verbatim>\<open>ToString\<close>, applied to property keys and by \<^verbatim>\<open>parseInt\<close>.\<close>

fun ToString :: "jsval \<Rightarrow> string" where
  "ToString JUndefined = ''undefined''"
| "ToString JNull = ''null''"
| "ToString (JNum n) = int_toString n"
| "ToString (JStr s) = s"

text \<open>The method call \<^verbatim>\<open>v.toString()\<close>: reading a property of \<^verbatim>\<open>undefined\<close> or
  \<^verbatim>\<open>null\<close> throws a TypeError.\<close>

fun toString :: "jsval \<Rightarrow> js_error + jsval" where
  "toString JUndefined = Inl TypeError"
| "toString JNull = Inl TypeError"
| "toString v = Inr (JStr (ToString v))"

text \<open>\<^verbatim>\<open>parseInt(v, 10)\<close>: the argument is converted with \<^verbatim>\<open>ToString\<close>, leading white
  space is skipped, one sign is read, and the longest prefix of decimal digits is the
  value; no digit at all gives \<^verbatim>\<open>NaN\<close>. 10 is the only radix the source passes.\<close>

definition StrWhiteSpaceChar :: "char \<Rightarrow> bool" where
  "StrWhiteSpaceChar c = ((of_char c :: nat) \<in> {9, 10, 11, 12, 13, 32, 160})"

definition isDigit :: "char \<Rightarrow> bool" where
  "isDigit c = (48 \<le> (of_char c :: nat) \<and> (of_char c :: nat) \<le> 57)"

definition parseInt :: "jsval \<Rightarrow> jsnum" where
  "parseInt v =
     (let inputString = ToString v;
          S = dropWhile StrWhiteSpaceChar inputString;
          sign = (if S \<noteq> [] \<and> hd S = CHR ''-'' then - 1 else 1);
          S = (if S \<noteq> [] \<and> (hd S = CHR ''+'' \<or> hd S = CHR ''-'') then tl S else S);
          Z = takeWhile isDigit S
      in if Z = [] then NaN
         else Fin (sign * int (foldl (\<lambda>n c. 10 * n + (of_char c - 48)) 0 Z)))"

text \<open>\<^verbatim>\<open>sum + x\<close> on numbers: \<^verbatim>\<open>NaN\<close> is absorbing.\<close>

fun js_add :: "jsnum \<Rightarrow> jsnum \<Rightarrow> jsnum" where
  "js_add (Fin a) (Fin b) = Fin (a + b)"
| "js_add _ _ = NaN"

section \<open>Generic events and the external collaborators\<close>

record event =
  ev_kind :: int
  ev_created_at :: int
  ev_tags :: "jsval list list"
  ev_content :: jsval
  ev_pubkey :: jsval
  ev_id :: jsval
  ev_sig :: jsval

text \<open>
  \<^verbatim>\<open>getPublicKey\<close>, \<^verbatim>\<open>getEventHash\<close> and \<^verbatim>\<open>signEvent\<close> come from the imported
  library \<^verbatim>\<open>nostr-tools\<close>, and \<open>now\<close> is the value of
  \<^verbatim>\<open>Math.floor(Date.now() / 1000)\<close>; they are parameters of the encoders.
\<close>

record env =
  getPublicKey :: "jsval \<Rightarrow> jsval"
  getEventHash :: "event \<Rightarrow> jsval"
  signEvent :: "event \<Rightarrow> jsval \<Rightarrow> jsval"
  now :: int

text \<open>\<^verbatim>\<open>xs.forEach(f)\<close> and \<^verbatim>\<open>xs.map(f)\<close> with a callback that may throw: the first
  exception ends the loop and is the result.\<close>

fun forEach :: "('s \<Rightarrow> 'a \<Rightarrow> js_error + 's) \<Rightarrow> 's \<Rightarrow> 'a list \<Rightarrow> js_error + 's" where
  "forEach f s [] = Inr s"
| "forEach f s (x # xs) = (case f s x of Inl e \<Rightarrow> Inl e | Inr s' \<Rightarrow> forEach f s' xs)"

fun map_throwing :: "('a \<Rightarrow> js_error + 'b) \<Rightarrow> 'a list \<Rightarrow> js_error + 'b list" where
  "map_throwing f [] = Inr []"
| "map_throwing f (x # xs) =
     (case f x of Inl e \<Rightarrow> Inl e
      | Inr y \<Rightarrow> (case map_throwing f xs of Inl e \<Rightarrow> Inl e | Inr ys \<Rightarrow> Inr (y # ys)))"

section \<open>Zap statistics\<close>

record zapStats =
  totalSats :: jsnum
  zapCount :: nat
  uniqueZappers :: nat

text \<open>The callback of \<^verbatim>\<open>zapReceipts.reduce\<close>; \<open>acc\<close> is the source's \<^verbatim>\<open>sum\<close>.\<close>

definition addAmount :: "jsnum \<Rightarrow> event \<Rightarrow> jsnum" where
  "addAmount acc receipt =
     (case find (\<lambda>tag. tag_at tag 0 = JStr ''amount'') (ev_tags receipt) of
        None \<Rightarrow> acc
      | Some amountTag \<Rightarrow>
          if truthy (tag_at amountTag 1) then js_add acc (parseInt (tag_at amountTag 1))
          else acc)"

text \<open>\<^verbatim>\<open>new Set(xs).size\<close>: the number of distinct elements.\<close>

definition Set_size :: "'a list \<Rightarrow> nat" where
  "Set_size xs = length (remdups xs)"

definition getZapStats :: "event list \<Rightarrow> zapStats" where
  "getZapStats events =
     (let zapReceipts = filter (\<lambda>e. ev_kind e = 9735) events;
          totalSats = foldl addAmount (Fin 0) zapReceipts;
          uniqueZappers = Set_size (map ev_pubkey zapReceipts)
      in \<lparr>totalSats = totalSats, zapCount = length zapReceipts, uniqueZappers = uniqueZappers\<rparr>)"

section \<open>Books\<close>

text \<open>The argument \<^verbatim>\<open>bookData\<close> of \<^verbatim>\<open>createBookEvent\<close>. An array-valued property is
  \<open>None\<close> when it is \<^verbatim>\<open>undefined\<close>.\<close>

record bookData =
  bd_id :: jsval
  bd_title :: jsval
  bd_authors :: "jsval list option"
  bd_isbn :: jsval
  bd_publishDate :: jsval
  bd_publisher :: jsval
  bd_coverUrl :: jsval
  bd_genres :: "jsval list option"
  bd_summary :: jsval
  bd_description :: jsval

text \<open>The last three statements of every encoder: build the event object, then attach
  \<^verbatim>\<open>id\<close> and \<^verbatim>\<open>sig\<close>.\<close>

definition makeEvent :: "env \<Rightarrow> jsval \<Rightarrow> int \<Rightarrow> jsval list list \<Rightarrow> jsval \<Rightarrow> event" where
  "makeEvent e privateKey kind tags content =
     (let event = \<lparr>ev_kind = kind, ev_created_at = now e, ev_tags = tags,
                    ev_content = content, ev_pubkey = getPublicKey e privateKey,
                    ev_id = JUndefined, ev_sig = JUndefined\<rparr>;
          event = event\<lparr>ev_id := getEventHash e event\<rparr>;
          event = event\<lparr>ev_sig := signEvent e event privateKey\<rparr>
      in event)"

text \<open>Spreading \<^verbatim>\<open>...bookData.authors\<close> into the array literal throws a TypeError when
  \<^verbatim>\<open>authors\<close> is \<^verbatim>\<open>undefined\<close>.\<close>

definition createBookEvent :: "env \<Rightarrow> jsval \<Rightarrow> bookData \<Rightarrow> js_error + event" where
  "createBookEvent e privateKey bookData =
     (case bd_authors bookData of
        None \<Rightarrow> Inl TypeError
      | Some authors \<Rightarrow>
          let tags = [[JStr ''d'', bd_id bookData],
                      [JStr ''title'', bd_title bookData],
                      JStr ''authors'' # authors,
                      [JStr ''isbn'', js_or (bd_isbn bookData) (JStr '''')],
                      [JStr ''published'', js_or (bd_publishDate bookData) (JStr '''')],
                      [JStr ''publisher'', js_or (bd_publisher bookData) (JStr '''')],
                      [JStr ''cover'', js_or (bd_coverUrl bookData) (JStr '''')]];
              tags = (case bd_genres bookData of
                        None \<Rightarrow> tags
                      | Some genres \<Rightarrow>
                          if length genres > 0
                          then tags @ map (\<lambda>genre. [JStr ''genre'', genre]) genres
                          else tags);
              tags = (if truthy (bd_summary bookData)
                      then tags @ [[JStr ''summary'', bd_summary bookData]]
                      else tags)
          in Inr (makeEvent e privateKey 30051 tags (js_or (bd_description bookData) (JStr ''''))))"

text \<open>The object that the callback of \<^verbatim>\<open>events.map\<close> in \<^verbatim>\<open>fetchBooks\<close> builds.
  \<open>bk_tags\<close> is the object \<^verbatim>\<open>book.tags\<close>, by its own properties.\<close>

record book =
  bk_id :: jsval
  bk_pubkey :: jsval
  bk_created_at :: int
  bk_description :: jsval
  bk_tags :: "string \<rightharpoonup> jsval list list"
  bk_uniqueId :: jsval
  bk_title :: jsval
  bk_authors :: "jsval list option"
  bk_isbn :: jsval
  bk_publishDate :: jsval
  bk_publisher :: jsval
  bk_coverUrl :: jsval
  bk_genres :: "jsval list option"
  bk_summary :: jsval

text \<open>
  \<^verbatim>\<open>book.tags\<close> is created by the literal \<^verbatim>\<open>{}\<close>, so reading \<^verbatim>\<open>book.tags[k]\<close> for a
  name it does not own finds what \<^verbatim>\<open>Object.prototype\<close> has under that name: a function
  or, for \<^verbatim>\<open>__proto__\<close>, the prototype object itself. These are the names.
\<close>

definition Object_prototype_keys :: "string list" where
  "Object_prototype_keys =
     [''constructor'', ''hasOwnProperty'', ''isPrototypeOf'', ''propertyIsEnumerable'',
      ''toLocaleString'', ''toString'', ''valueOf'', ''__proto__'',
      ''__defineGetter__'', ''__defineSetter__'', ''__lookupGetter__'', ''__lookupSetter__'']"

text \<open>
  The last branch of the callback of \<^verbatim>\<open>event.tags.forEach\<close> in \<^verbatim>\<open>fetchBooks\<close>:
  \<^verbatim>\<open>if (!book.tags[tag[0]]) book.tags[tag[0]] = []; book.tags[tag[0]].push(tag.slice(1))\<close>.
  An own property is an array and is pushed to. An inherited one is truthy, so nothing is
  assigned, and it has no \<^verbatim>\<open>push\<close>: the call throws a TypeError. Otherwise the read
  gives \<^verbatim>\<open>undefined\<close> and a fresh array is stored first.
\<close>

definition storeOtherTag :: "book \<Rightarrow> jsval list \<Rightarrow> js_error + book" where
  "storeOtherTag book tag =
     (let k = ToString (tag_at tag 0) in
      case bk_tags book k of
        Some args \<Rightarrow> Inr (book\<lparr>bk_tags := (bk_tags book)(k \<mapsto> args @ [slice1 tag])\<rparr>)
      | None \<Rightarrow>
          if k \<in> set Object_prototype_keys then Inl TypeError
          else Inr (book\<lparr>bk_tags := (bk_tags book)(k \<mapsto> [slice1 tag])\<rparr>))"

text \<open>The callback of \<^verbatim>\<open>event.tags.forEach\<close> in \<^verbatim>\<open>fetchBooks\<close>.\<close>

definition fetchBooks_tag :: "book \<Rightarrow> jsval list \<Rightarrow> js_error + book" where
  "fetchBooks_tag book tag =
     (if tag_at tag 0 = JStr ''d'' then Inr (book\<lparr>bk_uniqueId := tag_at tag 1\<rparr>)
      else if tag_at tag 0 = JStr ''title'' then Inr (book\<lparr>bk_title := tag_at tag 1\<rparr>)
      else if tag_at tag 0 = JStr ''authors'' then Inr (book\<lparr>bk_authors := Some (slice1 tag)\<rparr>)
      else if tag_at tag 0 = JStr ''isbn'' then Inr (book\<lparr>bk_isbn := tag_at tag 1\<rparr>)
      else if tag_at tag 0 = JStr ''published'' then Inr (book\<lparr>bk_publishDate := tag_at tag 1\<rparr>)
      else if tag_at tag 0 = JStr ''publisher'' then Inr (book\<lparr>bk_publisher := tag_at tag 1\<rparr>)
      else if tag_at tag 0 = JStr ''cover'' then Inr (book\<lparr>bk_coverUrl := tag_at tag 1\<rparr>)
      else if tag_at tag 0 = JStr ''genre'' then
        Inr (book\<lparr>bk_genres :=
               Some ((case bk_genres book of None \<Rightarrow> [] | Some genres \<Rightarrow> genres) @ [tag_at tag 1])\<rparr>)
      else if tag_at tag 0 = JStr ''summary'' then Inr (book\<lparr>bk_summary := tag_at tag 1\<rparr>)
      else storeOtherTag book tag)"

text \<open>The callback of \<^verbatim>\<open>events.map\<close> in \<^verbatim>\<open>fetchBooks\<close>: the decoder of one event.\<close>

definition newBook :: "event \<Rightarrow> book" where
  "newBook event =
     \<lparr>bk_id = ev_id event, bk_pubkey = ev_pubkey event, bk_created_at = ev_created_at event,
      bk_description = ev_content event, bk_tags = Map.empty,
      bk_uniqueId = JUndefined, bk_title = JUndefined, bk_authors = None,
      bk_isbn = JUndefined, bk_publishDate = JUndefined, bk_publisher = JUndefined,
      bk_coverUrl = JUndefined, bk_genres = None, bk_summary = JUndefined\<rparr>"

definition fetchBooks_event :: "event \<Rightarrow> js_error + book" where
  "fetchBooks_event event = forEach fetchBooks_tag (newBook event) (ev_tags event)"

text \<open>\<^verbatim>\<open>fetchBooks\<close>, from the events that the fetcher returned.\<close>

definition fetchBooks :: "event list \<Rightarrow> js_error + book list" where
  "fetchBooks events = map_throwing fetchBooks_event events"

section \<open>Bookshelves\<close>

record shelfBook =
  sb_eventId :: jsval
  sb_status :: jsval
  sb_progress :: jsval
  sb_completedDate :: jsval

record shelfData =
  sd_id :: jsval
  sd_name :: jsval
  sd_description :: jsval
  sd_books :: "shelfBook list option"
  sd_notes :: jsval

text \<open>The callback of \<^verbatim>\<open>shelfData.books.forEach\<close>: the tag of one shelf entry.\<close>

definition bookTag :: "shelfBook \<Rightarrow> jsval list" where
  "bookTag book =
     (let bookTag = [JStr ''book'', sb_eventId book, sb_status book];
          bookTag = (if truthy (sb_progress book) then bookTag @ [sb_progress book] else bookTag);
          bookTag = (if truthy (sb_completedDate book) then bookTag @ [sb_completedDate book]
                     else bookTag)
      in bookTag)"

definition createBookshelfEvent :: "env \<Rightarrow> jsval \<Rightarrow> shelfData \<Rightarrow> js_error + event" where
  "createBookshelfEvent e privateKey shelfData =
     (let tags = [[JStr ''d'', sd_id shelfData], [JStr ''name'', sd_name shelfData]];
          tags = (if truthy (sd_description shelfData)
                  then tags @ [[JStr ''description'', sd_description shelfData]]
                  else tags);
          tags = (case sd_books shelfData of
                    None \<Rightarrow> tags
                  | Some books \<Rightarrow> if length books > 0 then tags @ map bookTag books else tags)
      in Inr (makeEvent e privateKey 30052 tags (js_or (sd_notes shelfData) (JStr ''''))))"

record shelfEntry =
  eventId :: jsval
  status :: jsval
  progress :: jsval
  completedDate :: jsval

record bookshelf =
  bs_id :: jsval
  bs_pubkey :: jsval
  bs_created_at :: int
  bs_notes :: jsval
  bs_books :: "shelfEntry list"
  bs_uniqueId :: jsval
  bs_name :: jsval
  bs_description :: jsval

text \<open>The callback of \<^verbatim>\<open>event.tags.forEach\<close> in \<^verbatim>\<open>fetchUserBookshelves\<close>; a tag
  with any other key is skipped.\<close>

definition fetchUserBookshelves_tag :: "bookshelf \<Rightarrow> jsval list \<Rightarrow> js_error + bookshelf" where
  "fetchUserBookshelves_tag bookshelf tag =
     (if tag_at tag 0 = JStr ''d'' then Inr (bookshelf\<lparr>bs_uniqueId := tag_at tag 1\<rparr>)
      else if tag_at tag 0 = JStr ''name'' then Inr (bookshelf\<lparr>bs_name := tag_at tag 1\<rparr>)
      else if tag_at tag 0 = JStr ''description'' then
        Inr (bookshelf\<lparr>bs_description := tag_at tag 1\<rparr>)
      else if tag_at tag 0 = JStr ''book'' then
        Inr (bookshelf\<lparr>bs_books := bs_books bookshelf @
               [\<lparr>eventId = tag_at tag 1, status = tag_at tag 2,
                 progress = tag_at tag 3, completedDate = tag_at tag 4\<rparr>]\<rparr>)
      else Inr bookshelf)"

definition newBookshelf :: "event \<Rightarrow> bookshelf" where
  "newBookshelf event =
     \<lparr>bs_id = ev_id event, bs_pubkey = ev_pubkey event, bs_created_at = ev_created_at event,
      bs_notes = ev_content event, bs_books = [],
      bs_uniqueId = JUndefined, bs_name = JUndefined, bs_description = JUndefined\<rparr>"

definition fetchUserBookshelves_event :: "event \<Rightarrow> js_error + bookshelf" where
  "fetchUserBookshelves_event event =
     forEach fetchUserBookshelves_tag (newBookshelf event) (ev_tags event)"

definition fetchUserBookshelves :: "event list \<Rightarrow> js_error + bookshelf list" where
  "fetchUserBookshelves events = map_throwing fetchUserBookshelves_event events"

section \<open>Reviews\<close>

record reviewData =
  rd_bookEventId :: jsval
  rd_rating :: jsval
  rd_readDate :: jsval
  rd_subject :: jsval
  rd_content :: jsval

definition createBookReviewEvent :: "env \<Rightarrow> jsval \<Rightarrow> reviewData \<Rightarrow> js_error + event" where
  "createBookReviewEvent e privateKey reviewData =
     (case toString (rd_rating reviewData) of
        Inl err \<Rightarrow> Inl err
      | Inr rating \<Rightarrow>
          let tags = [[JStr ''e'', rd_bookEventId reviewData], [JStr ''rating'', rating]];
              tags = (if truthy (rd_readDate reviewData)
                      then tags @ [[JStr ''read'', rd_readDate reviewData]]
                      else tags);
              tags = (if truthy (rd_subject reviewData)
                      then tags @ [[JStr ''subject'', rd_subject reviewData]]
                      else tags)
          in Inr (makeEvent e privateKey 30053 tags (js_or (rd_content reviewData) (JStr ''''))))"

section \<open>Vocabulary of the properties and example inputs\<close>

text \<open>The keys that have a branch of their own in the callback of \<^verbatim>\<open>fetchBooks\<close>.\<close>

definition recognised_keys :: "string list" where
  "recognised_keys =
     [''d'', ''title'', ''authors'', ''isbn'', ''published'', ''publisher'', ''cover'',
      ''genre'', ''summary'']"

text \<open>The single-value fields of a book: the key of the tag, and the property that the
  branch for that key assigns.\<close>

definition single_value_fields :: "(string \<times> (book \<Rightarrow> jsval)) list" where
  "single_value_fields =
     [(''d'', bk_uniqueId), (''title'', bk_title), (''isbn'', bk_isbn),
      (''published'', bk_publishDate), (''publisher'', bk_publisher),
      (''cover'', bk_coverUrl), (''summary'', bk_summary)]"

text \<open>An event as it comes from a relay, by kind, tags and author.\<close>

definition relay_event :: "int \<Rightarrow> jsval list list \<Rightarrow> jsval \<Rightarrow> event" where
  "relay_event kind tags pubkey =
     \<lparr>ev_kind = kind, ev_created_at = 0, ev_tags = tags, ev_content = JStr '''',
      ev_pubkey = pubkey, ev_id = JStr ''id'', ev_sig = JStr ''sig''\<rparr>"

definition receipt :: "jsval list list \<Rightarrow> jsval \<Rightarrow> event" where
  "receipt tags pubkey = relay_event 9735 tags pubkey"

text \<open>The three receipts of the example of the specification.\<close>

definition three_receipts :: "event list" where
  "three_receipts =
     [receipt [[JStr ''amount'', JStr ''1000'']] (JStr ''A''),
      receipt [] (JStr ''A''),
      receipt [[JStr ''amount'', JStr ''500'']] (JStr ''B'')]"

definition example_env :: env where
  "example_env =
     \<lparr>getPublicKey = (\<lambda>privateKey. JStr ''pubkey''), getEventHash = (\<lambda>event. JStr ''id''),
      signEvent = (\<lambda>event privateKey. JStr ''sig''), now = 1700000000\<rparr>"

text \<open>Events for the examples: two \<open>title\<close> tags, two \<open>amount\<close> tags, the two
  \<open>genre\<close> tags and the \<open>custom\<close> tag of the specification, a tag keyed by a name
  that \<^verbatim>\<open>Object.prototype\<close> has, and a \<open>book\<close> tag of three elements.\<close>

definition two_titles :: event where
  "two_titles =
     relay_event 30051
       [[JStr ''d'', JStr ''dune''], [JStr ''title'', JStr ''Dune (draft)''],
        [JStr ''title'', JStr ''Dune'']] (JStr ''A'')"

definition two_amounts :: event where
  "two_amounts =
     receipt [[JStr ''p'', JStr ''B''], [JStr ''amount'', JStr ''1000''],
              [JStr ''amount'', JStr ''5'']] (JStr ''A'')"

definition two_genres :: event where
  "two_genres =
     relay_event 30051 [[JStr ''genre'', JStr ''scifi''], [JStr ''genre'', JStr ''classic'']]
       (JStr ''A'')"

definition custom_book :: event where
  "custom_book =
     relay_event 30051 [[JStr ''d'', JStr ''dune''], [JStr ''custom'', JStr ''x'', JStr ''y'']]
       (JStr ''A'')"

definition custom_shelf :: event where
  "custom_shelf =
     relay_event 30052 [[JStr ''d'', JStr ''shelf''], [JStr ''custom'', JStr ''x'', JStr ''y'']]
       (JStr ''A'')"

definition plain_shelf :: event where
  "plain_shelf = relay_event 30052 [[JStr ''d'', JStr ''shelf'']] (JStr ''A'')"

definition constructor_book :: event where
  "constructor_book =
     relay_event 30051 [[JStr ''d'', JStr ''dune''], [JStr ''constructor'', JStr ''x'']]
       (JStr ''A'')"

definition two_titles_then_constructor :: event where
  "two_titles_then_constructor =
     relay_event 30051
       [[JStr ''title'', JStr ''Dune (draft)''], [JStr ''title'', JStr ''Dune''],
        [JStr ''constructor'', JStr ''x'']] (JStr ''A'')"

definition two_genres_then_toString :: event where
  "two_genres_then_toString =
     relay_event 30051
       [[JStr ''genre'', JStr ''scifi''], [JStr ''genre'', JStr ''classic''],
        [JStr ''toString'', JStr ''x'']] (JStr ''A'')"


text \<open>Decoding the event that the encoder of books produced.\<close>

definition roundtrip_book :: "env \<Rightarrow> jsval \<Rightarrow> bookData \<Rightarrow> js_error + book" where
  "roundtrip_book e privateKey bookData =
     (case createBookEvent e privateKey bookData of
        Inl err \<Rightarrow> Inl err
      | Inr event \<Rightarrow> fetchBooks_event event)"

text \<open>Decoding the event that the encoder of bookshelves produced.\<close>

definition roundtrip_shelf :: "env \<Rightarrow> jsval \<Rightarrow> shelfData \<Rightarrow> js_error + bookshelf" where
  "roundtrip_shelf e privateKey shelfData =
     (case createBookshelfEvent e privateKey shelfData of
        Inl err \<Rightarrow> Inl err
      | Inr event \<Rightarrow> fetchUserBookshelves_event event)"

text \<open>Inputs of the encoders: a book whose \<open>isbn\<close> is the empty string and whose other
  optional fields are absent; the book, the shelf and the review of
  \<^verbatim>\<open>nostrReadsExample\<close>; and reviews without a rating, with a rating that is no number,
  and without the reference to a book.\<close>

definition empty_isbn_book :: bookData where
  "empty_isbn_book =
     \<lparr>bd_id = JStr ''dune'', bd_title = JStr ''Dune'', bd_authors = Some [JStr ''Frank Herbert''],
      bd_isbn = JStr '''', bd_publishDate = JUndefined, bd_publisher = JUndefined,
      bd_coverUrl = JUndefined, bd_genres = None, bd_summary = JUndefined,
      bd_description = JUndefined\<rparr>"

definition dune :: bookData where
  "dune =
     \<lparr>bd_id = JStr ''dune-frank-herbert'', bd_title = JStr ''Dune'',
      bd_authors = Some [JStr ''Frank Herbert''], bd_isbn = JStr ''9780441172719'',
      bd_publishDate = JStr ''1965-08-01'', bd_publisher = JStr ''Ace Books'',
      bd_coverUrl = JStr ''https://covers.openlibrary.org/b/id/8643691-L.jpg'',
      bd_genres = Some [JStr ''science fiction'', JStr ''fantasy'', JStr ''classic''],
      bd_summary = JUndefined, bd_description = JStr ''Set on the desert planet Arrakis''\<rparr>"

definition myShelf :: shelfData where
  "myShelf =
     \<lparr>sd_id = JStr ''my-sci-fi-shelf'', sd_name = JStr ''Science Fiction Favorites'',
      sd_description = JStr ''My all-time favorite sci-fi novels'',
      sd_books = Some [\<lparr>sb_eventId = JStr ''id'', sb_status = JStr ''read'',
                        sb_progress = JUndefined, sb_completedDate = JStr ''2023-05-15''\<rparr>],
      sd_notes = JUndefined\<rparr>"

definition myReview :: reviewData where
  "myReview =
     \<lparr>rd_bookEventId = JStr ''id'', rd_rating = JNum 5, rd_readDate = JUndefined,
      rd_subject = JStr ''A timeless masterpiece'', rd_content = JStr ''A triumph''\<rparr>"

definition review_without_rating :: reviewData where
  "review_without_rating = myReview\<lparr>rd_rating := JUndefined\<rparr>"

definition review_rated_abc :: reviewData where
  "review_rated_abc = myReview\<lparr>rd_rating := JStr ''abc''\<rparr>"

definition review_without_book :: reviewData where
  "review_without_book = myReview\<lparr>rd_bookEventId := JUndefined\<rparr>"

section \<open>The aggregator\<close>

lemmas parseInt_simps = parseInt_def isDigit_def StrWhiteSpaceChar_def

lemma relay_event_sel [simp]:
  "ev_kind (relay_event k ts p) = k"
  "ev_tags (relay_event k ts p) = ts"
  "ev_pubkey (relay_event k ts p) = p"
  "ev_content (relay_event k ts p) = JStr ''''"
  by (simp_all add: relay_event_def)

lemma receipt_sel [simp]:
  "ev_kind (receipt ts p) = 9735"
  "ev_tags (receipt ts p) = ts"
  "ev_pubkey (receipt ts p) = p"
  by (simp_all add: receipt_def)

lemma zapCount_counts_receipts:
  "zapCount (getZapStats events) = length (filter (\<lambda>e. ev_kind e = 9735) events)"
  by (simp add: getZapStats_def Let_def)

lemma totalSats_fold:
  "totalSats (getZapStats events) =
     foldl addAmount (Fin 0) (filter (\<lambda>e. ev_kind e = 9735) events)"
  by (simp add: getZapStats_def Let_def)

text \<open>A receipt without a tag keyed \<open>amount\<close>, or whose amount is empty or missing,
  leaves the running total as it is.\<close>

lemma addAmount_without_amount:
  "\<forall>tag \<in> set (ev_tags r). tag_at tag 0 \<noteq> JStr ''amount'' \<Longrightarrow> addAmount acc r = acc"
proof -
  assume "\<forall>tag \<in> set (ev_tags r). tag_at tag 0 \<noteq> JStr ''amount''"
  then have "find (\<lambda>tag. tag_at tag 0 = JStr ''amount'') (ev_tags r) = None"
    by (simp add: find_None_iff)
  then show ?thesis by (simp add: addAmount_def)
qed

lemma getZapStats_three_receipts:
  "getZapStats three_receipts = \<lparr>totalSats = Fin 1500, zapCount = 3, uniqueZappers = 2\<rparr>"
  by (simp add: three_receipts_def getZapStats_def addAmount_def tag_at_def Set_size_def
      parseInt_simps)

lemma uniqueZappers_card:
  "uniqueZappers (getZapStats events) = card (ev_pubkey ` {e \<in> set events. ev_kind e = 9735})"
  by (simp add: getZapStats_def Set_size_def length_remdups_card_conv Let_def)

text \<open>
  C3. The aggregator is claimed to count a receipt whose amount is not a number as 0 in
  \<open>totalSats\<close>. The code adds the result of \<^verbatim>\<open>parseInt\<close> without looking at it: for
  the receipts \<^verbatim>\<open>[["amount","1000"]]\<close> by A and \<^verbatim>\<open>[["amount","abc"]]\<close> by B the total
  is \<^verbatim>\<open>NaN\<close>, where the claim gives 1000. Both receipts are counted.
\<close>

theorem C3_non_numeric_amount_poisons_total:
  "getZapStats [receipt [[JStr ''amount'', JStr ''1000'']] (JStr ''A''),
                receipt [[JStr ''amount'', JStr ''abc'']] (JStr ''B'')]
   = \<lparr>totalSats = NaN, zapCount = 2, uniqueZappers = 2\<rparr>"
  by (simp add: getZapStats_def addAmount_def tag_at_def Set_size_def parseInt_simps)

text \<open>
  C9. \<open>uniqueZappers\<close> is the number of distinct authors among the receipts of kind
  9735: the cardinality of the set of their \<open>pubkey\<close>s. It is the same for every
  permutation of the input, and an author of several receipts is one element of the set.
\<close>

theorem C9_uniqueZappers_distinct_authors:
  "uniqueZappers (getZapStats events) = card (ev_pubkey ` {e \<in> set events. ev_kind e = 9735})
   \<and> (mset events' = mset events \<longrightarrow>
        uniqueZappers (getZapStats events') = uniqueZappers (getZapStats events))"
proof
  show "uniqueZappers (getZapStats events) =
          card (ev_pubkey ` {e \<in> set events. ev_kind e = 9735})"
    by (rule uniqueZappers_card)
next
  show "mset events' = mset events \<longrightarrow>
          uniqueZappers (getZapStats events') = uniqueZappers (getZapStats events)"
  proof
    assume "mset events' = mset events"
    then have "set events' = set events" by (rule mset_eq_setD)
    then show "uniqueZappers (getZapStats events') = uniqueZappers (getZapStats events)"
      by (simp add: uniqueZappers_card)
  qed
qed

theorem C9_uniqueZappers_witness:
  "mset (rev three_receipts) = mset three_receipts
   \<and> uniqueZappers (getZapStats (rev three_receipts)) = 2
   \<and> card (ev_pubkey ` {e \<in> set three_receipts. ev_kind e = 9735}) = 2"
  using C9_uniqueZappers_distinct_authors [of three_receipts "rev three_receipts"]
    getZapStats_three_receipts
  by simp

section \<open>The decoder of books, tag by tag\<close>

lemma forEach_append:
  "forEach f s (xs @ ys) = (case forEach f s xs of Inl e \<Rightarrow> Inl e | Inr s' \<Rightarrow> forEach f s' ys)"
  by (induction xs arbitrary: s) (auto split: sum.splits)

lemma storeOtherTag_cases:
  "storeOtherTag b t = Inr b' \<Longrightarrow>
     b' = b\<lparr>bk_tags := (bk_tags b)(ToString (tag_at t 0) \<mapsto>
            (case bk_tags b (ToString (tag_at t 0)) of None \<Rightarrow> [] | Some a \<Rightarrow> a) @ [slice1 t])\<rparr>"
  by (auto simp: storeOtherTag_def Let_def split: option.splits if_splits)

lemma fetchBooks_tag_field:
  assumes "fetchBooks_tag b t = Inr b'" and "(k, f) \<in> set single_value_fields"
  shows "f b' = (if tag_at t 0 = JStr k then tag_at t 1 else f b)"
  using assms
  by (auto simp: fetchBooks_tag_def single_value_fields_def split: if_splits
      dest!: storeOtherTag_cases)

lemma fetchBooks_tag_genres:
  assumes "fetchBooks_tag b t = Inr b'"
  shows "bk_genres b' =
     (if tag_at t 0 = JStr ''genre''
      then Some ((case bk_genres b of None \<Rightarrow> [] | Some g \<Rightarrow> g) @ [tag_at t 1])
      else bk_genres b)"
  using assms
  by (auto simp: fetchBooks_tag_def split: if_splits dest!: storeOtherTag_cases)

lemma fetchBooks_tag_tags:
  assumes "fetchBooks_tag b t = Inr b'" and "k \<notin> set recognised_keys"
  shows "bk_tags b' k =
     (if ToString (tag_at t 0) = k
      then Some ((case bk_tags b k of None \<Rightarrow> [] | Some a \<Rightarrow> a) @ [slice1 t])
      else bk_tags b k)"
  using assms
  by (auto simp: fetchBooks_tag_def recognised_keys_def split: if_splits
      dest!: storeOtherTag_cases)

lemma fetchBooks_tag_returns:
  assumes "ToString (tag_at t 0) \<notin> set Object_prototype_keys"
  shows "\<exists>b'. fetchBooks_tag b t = Inr b'"
  using assms
  by (simp add: fetchBooks_tag_def storeOtherTag_def Let_def split: option.splits)

section \<open>The decoder of books, over all tags\<close>

lemma forEach_fetchBooks_field_kept:
  assumes "forEach fetchBooks_tag b0 ts = Inr b" and "(k, f) \<in> set single_value_fields"
    and "\<forall>u \<in> set ts. tag_at u 0 \<noteq> JStr k"
  shows "f b = f b0"
  using assms
proof (induction ts arbitrary: b0)
  case Nil
  then show ?case by simp
next
  case (Cons t ts)
  from Cons.prems(1) obtain b1 where s: "fetchBooks_tag b0 t = Inr b1"
    and r: "forEach fetchBooks_tag b1 ts = Inr b"
    by (auto split: sum.splits)
  from Cons.prems(3) have "tag_at t 0 \<noteq> JStr k" by simp
  with fetchBooks_tag_field [OF s Cons.prems(2)] have "f b1 = f b0" by simp
  moreover have "f b = f b1" using Cons.IH [OF r Cons.prems(2)] Cons.prems(3) by simp
  ultimately show ?case by simp
qed

lemma forEach_fetchBooks_last_wins:
  assumes "forEach fetchBooks_tag b0 (pre @ t # post) = Inr b"
    and "(k, f) \<in> set single_value_fields"
    and "tag_at t 0 = JStr k"
    and "\<forall>u \<in> set post. tag_at u 0 \<noteq> JStr k"
  shows "f b = tag_at t 1"
proof -
  from assms(1) obtain b1 where "forEach fetchBooks_tag b1 (t # post) = Inr b"
    by (auto simp: forEach_append split: sum.splits)
  then obtain b2 where s: "fetchBooks_tag b1 t = Inr b2"
    and r: "forEach fetchBooks_tag b2 post = Inr b"
    by (auto split: sum.splits)
  have "f b2 = tag_at t 1" using fetchBooks_tag_field [OF s assms(2)] assms(3) by simp
  moreover have "f b = f b2" by (rule forEach_fetchBooks_field_kept [OF r assms(2) assms(4)])
  ultimately show ?thesis by simp
qed

lemma forEach_fetchBooks_genres:
  assumes "forEach fetchBooks_tag b0 ts = Inr b"
  shows "bk_genres b =
     (case filter (\<lambda>t. tag_at t 0 = JStr ''genre'') ts of
        [] \<Rightarrow> bk_genres b0
      | g # gs \<Rightarrow> Some ((case bk_genres b0 of None \<Rightarrow> [] | Some old \<Rightarrow> old)
                        @ map (\<lambda>t. tag_at t 1) (g # gs)))"
  using assms
proof (induction ts arbitrary: b0)
  case Nil
  then show ?case by simp
next
  case (Cons t ts)
  from Cons.prems obtain b1 where s: "fetchBooks_tag b0 t = Inr b1"
    and r: "forEach fetchBooks_tag b1 ts = Inr b"
    by (auto split: sum.splits)
  show ?case
    using Cons.IH [OF r] fetchBooks_tag_genres [OF s]
    by (auto split: list.splits option.splits)
qed

lemma forEach_fetchBooks_tags:
  assumes "forEach fetchBooks_tag b0 ts = Inr b" and "k \<notin> set recognised_keys"
  shows "bk_tags b k =
     (case filter (\<lambda>t. ToString (tag_at t 0) = k) ts of
        [] \<Rightarrow> bk_tags b0 k
      | g # gs \<Rightarrow> Some ((case bk_tags b0 k of None \<Rightarrow> [] | Some old \<Rightarrow> old)
                        @ map slice1 (g # gs)))"
  using assms
proof (induction ts arbitrary: b0)
  case Nil
  then show ?case by simp
next
  case (Cons t ts)
  from Cons.prems(1) obtain b1 where s: "fetchBooks_tag b0 t = Inr b1"
    and r: "forEach fetchBooks_tag b1 ts = Inr b"
    by (auto split: sum.splits)
  show ?case
    using Cons.IH [OF r Cons.prems(2)] fetchBooks_tag_tags [OF s Cons.prems(2)]
    by (auto split: list.splits option.splits)
qed

lemma forEach_fetchBooks_returns:
  assumes "\<forall>t \<in> set ts. ToString (tag_at t 0) \<notin> set Object_prototype_keys"
  shows "\<exists>b. forEach fetchBooks_tag b0 ts = Inr b"
  using assms
proof (induction ts arbitrary: b0)
  case Nil
  then show ?case by simp
next
  case (Cons t ts)
  then obtain b1 where "fetchBooks_tag b0 t = Inr b1"
    using fetchBooks_tag_returns [of t b0] by auto
  then show ?case using Cons by simp
qed

text \<open>The decoder returns a book for every event none of whose tags is keyed by a name
  that \<^verbatim>\<open>Object.prototype\<close> has.\<close>

lemma fetchBooks_event_returns:
  assumes "\<forall>t \<in> set (ev_tags ev). ToString (tag_at t 0) \<notin> set Object_prototype_keys"
  shows "\<exists>b. fetchBooks_event ev = Inr b"
  unfolding fetchBooks_event_def using assms by (rule forEach_fetchBooks_returns)

lemmas fetchBooks_eval =
  fetchBooks_event_def newBook_def fetchBooks_tag_def storeOtherTag_def tag_at_def slice1_def
  Object_prototype_keys_def relay_event_def

text \<open>On a tag keyed \<open>constructor\<close> it throws.\<close>

lemma fetchBooks_event_throws_on_inherited_key:
  "fetchBooks_event constructor_book = Inl TypeError"
  by (simp add: constructor_book_def fetchBooks_eval)

section \<open>Claims about the decoders\<close>

lemma find_first:
  assumes "P a" and "\<forall>u \<in> set pre. \<not> P u"
  shows "find P (pre @ a # post) = Some a"
  using assms by (induction pre) auto

text \<open>
  Duplicate tags of a single-value field: whenever the decoder of books returns a book,
  each of the seven single-value fields is bound to the value of the last tag with its
  key (the tag \<open>t\<close> after which no tag has the key); it returns a book for every event
  without a tag keyed by a name inherited from \<^verbatim>\<open>Object.prototype\<close>. The aggregator
  reads the amount of a receipt from the first tag keyed \<open>amount\<close> (the tag \<open>a\<close>
  before which no tag has the key), whatever follows it.
\<close>

lemma last_tag_wins_first_amount_wins:
  "(fetchBooks_event ev = Inr b \<and> (k, f) \<in> set single_value_fields
      \<and> ev_tags ev = pre @ t # post \<and> tag_at t 0 = JStr k
      \<and> (\<forall>u \<in> set post. tag_at u 0 \<noteq> JStr k)
    \<longrightarrow> f b = tag_at t 1)
   \<and> ((\<forall>u \<in> set (ev_tags ev). ToString (tag_at u 0) \<notin> set Object_prototype_keys) \<longrightarrow>
        (\<exists>b'. fetchBooks_event ev = Inr b'))
   \<and> (ev_tags r = pre' @ a # post' \<and> tag_at a 0 = JStr ''amount''
      \<and> (\<forall>u \<in> set pre'. tag_at u 0 \<noteq> JStr ''amount'')
    \<longrightarrow> addAmount acc r =
          (if truthy (tag_at a 1) then js_add acc (parseInt (tag_at a 1)) else acc))"
proof (intro conjI impI)
  assume h: "fetchBooks_event ev = Inr b \<and> (k, f) \<in> set single_value_fields
      \<and> ev_tags ev = pre @ t # post \<and> tag_at t 0 = JStr k
      \<and> (\<forall>u \<in> set post. tag_at u 0 \<noteq> JStr k)"
  then have "forEach fetchBooks_tag (newBook ev) (pre @ t # post) = Inr b"
    by (auto simp: fetchBooks_event_def)
  then show "f b = tag_at t 1"
    using h by (blast intro: forEach_fetchBooks_last_wins)
next
  assume "\<forall>u \<in> set (ev_tags ev). ToString (tag_at u 0) \<notin> set Object_prototype_keys"
  then show "\<exists>b'. fetchBooks_event ev = Inr b'" by (rule fetchBooks_event_returns)
next
  assume h: "ev_tags r = pre' @ a # post' \<and> tag_at a 0 = JStr ''amount''
      \<and> (\<forall>u \<in> set pre'. tag_at u 0 \<noteq> JStr ''amount'')"
  then have "find (\<lambda>tag. tag_at tag 0 = JStr ''amount'') (ev_tags r) = Some a"
    using find_first [of "\<lambda>tag. tag_at tag 0 = JStr ''amount''" a pre' post'] by simp
  then show "addAmount acc r =
          (if truthy (tag_at a 1) then js_add acc (parseInt (tag_at a 1)) else acc)"
    by (simp add: addAmount_def)
qed

lemma last_tag_wins_first_amount_wins_example:
  "(\<exists>b. fetchBooks_event two_titles = Inr b \<and> bk_title b = JStr ''Dune'')
   \<and> addAmount (Fin 0) two_amounts = Fin 1000"
proof
  have "\<forall>u \<in> set (ev_tags two_titles). ToString (tag_at u 0) \<notin> set Object_prototype_keys"
    by (simp add: two_titles_def tag_at_def Object_prototype_keys_def)
  with last_tag_wins_first_amount_wins [of two_titles]
  obtain b where b: "fetchBooks_event two_titles = Inr b" by blast
  have "bk_title b = tag_at [JStr ''title'', JStr ''Dune''] 1"
    using last_tag_wins_first_amount_wins
      [of two_titles b "''title''" bk_title
          "[[JStr ''d'', JStr ''dune''], [JStr ''title'', JStr ''Dune (draft)'']]"
          "[JStr ''title'', JStr ''Dune'']" "[]"] b
    by (simp add: two_titles_def single_value_fields_def relay_event_def tag_at_def)
  then show "\<exists>b. fetchBooks_event two_titles = Inr b \<and> bk_title b = JStr ''Dune''"
    using b by (simp add: tag_at_def)
next
  have "addAmount (Fin 0) two_amounts =
          (if truthy (tag_at [JStr ''amount'', JStr ''1000''] 1)
           then js_add (Fin 0) (parseInt (tag_at [JStr ''amount'', JStr ''1000''] 1)) else Fin 0)"
    using last_tag_wins_first_amount_wins
      [of _ _ _ _ _ _ _ two_amounts "[[JStr ''p'', JStr ''B'']]" "[JStr ''amount'', JStr ''1000'']"
          "[[JStr ''amount'', JStr ''5'']]" "Fin 0"]
    by (simp add: two_amounts_def tag_at_def)
  then show "addAmount (Fin 0) two_amounts = Fin 1000"
    by (simp add: tag_at_def parseInt_simps)
qed

text \<open>
  C5. The decoder is claimed to bind a single-value field to the last of its duplicate
  tags for every event. For the tags \<^verbatim>\<open>["title", "Dune (draft)"]\<close>,
  \<^verbatim>\<open>["title", "Dune"]\<close>, \<^verbatim>\<open>["constructor", "x"]\<close> the decoder of books binds nothing:
  the catch-all branch finds the inherited \<^verbatim>\<open>Object.prototype.constructor\<close> under
  \<^verbatim>\<open>book.tags["constructor"]\<close>, calls its missing \<^verbatim>\<open>push\<close>, and the TypeError ends
  the decoding, where the claim gives a book titled \<^verbatim>\<open>"Dune"\<close>.
\<close>

theorem C5_duplicate_titles_then_inherited_key_throws:
  "fetchBooks_event two_titles_then_constructor = Inl TypeError"
  by (simp add: two_titles_then_constructor_def fetchBooks_eval)

text \<open>
  Whenever the decoder of books returns a book, its \<open>genres\<close> are the values of all
  the tags keyed \<open>genre\<close>, in the order of the tags, and absent when there is no such
  tag; it returns a book for every event without a tag keyed by a name inherited from
  \<^verbatim>\<open>Object.prototype\<close>. For \<^verbatim>\<open>[genre, "scifi"]\<close> then \<^verbatim>\<open>[genre, "classic"]\<close>
  the genres are \<^verbatim>\<open>["scifi", "classic"]\<close>.
\<close>

lemma genres_accumulate_in_tag_order:
  "(fetchBooks_event ev = Inr b \<longrightarrow>
      bk_genres b =
        (case filter (\<lambda>t. tag_at t 0 = JStr ''genre'') (ev_tags ev) of
           [] \<Rightarrow> None
         | g # gs \<Rightarrow> Some (map (\<lambda>t. tag_at t 1) (g # gs))))
   \<and> ((\<forall>t \<in> set (ev_tags ev). ToString (tag_at t 0) \<notin> set Object_prototype_keys) \<longrightarrow>
        (\<exists>b'. fetchBooks_event ev = Inr b'))"
proof (intro conjI impI)
  assume "fetchBooks_event ev = Inr b"
  then have "forEach fetchBooks_tag (newBook ev) (ev_tags ev) = Inr b"
    by (simp add: fetchBooks_event_def)
  from forEach_fetchBooks_genres [OF this]
  show "bk_genres b =
        (case filter (\<lambda>t. tag_at t 0 = JStr ''genre'') (ev_tags ev) of
           [] \<Rightarrow> None
         | g # gs \<Rightarrow> Some (map (\<lambda>t. tag_at t 1) (g # gs)))"
    by (simp add: newBook_def split: list.splits)
next
  assume "\<forall>t \<in> set (ev_tags ev). ToString (tag_at t 0) \<notin> set Object_prototype_keys"
  then show "\<exists>b'. fetchBooks_event ev = Inr b'" by (rule fetchBooks_event_returns)
qed

lemma genres_accumulate_in_tag_order_example:
  "\<exists>b. fetchBooks_event two_genres = Inr b \<and> bk_genres b = Some [JStr ''scifi'', JStr ''classic'']"
proof -
  have "\<forall>t \<in> set (ev_tags two_genres). ToString (tag_at t 0) \<notin> set Object_prototype_keys"
    by (simp add: two_genres_def tag_at_def Object_prototype_keys_def)
  with genres_accumulate_in_tag_order [of two_genres]
  obtain b where b: "fetchBooks_event two_genres = Inr b" by blast
  with genres_accumulate_in_tag_order [of two_genres b]
  have "bk_genres b = Some [JStr ''scifi'', JStr ''classic'']"
    by (simp add: two_genres_def tag_at_def)
  with b show ?thesis by blast
qed

text \<open>
  C8. The decoder is claimed to collect the genres of every book event with several
  \<open>genre\<close> tags. For the tags \<^verbatim>\<open>["genre", "scifi"]\<close>, \<^verbatim>\<open>["genre", "classic"]\<close>,
  \<^verbatim>\<open>["toString", "x"]\<close> the decoder of books returns no book: the catch-all branch
  finds the inherited \<^verbatim>\<open>Object.prototype.toString\<close> under \<^verbatim>\<open>book.tags["toString"]\<close>,
  calls its missing \<^verbatim>\<open>push\<close>, and the TypeError ends the decoding, where the claim
  gives the genres \<^verbatim>\<open>["scifi", "classic"]\<close>.
\<close>

theorem C8_genre_tags_then_inherited_key_throws:
  "fetchBooks_event two_genres_then_toString = Inl TypeError"
  by (simp add: two_genres_then_toString_def fetchBooks_eval)

section \<open>The decoder of bookshelves\<close>

lemma fetchUserBookshelves_tag_books:
  "\<exists>s'. fetchUserBookshelves_tag s t = Inr s' \<and>
     bs_books s' = bs_books s @
       (if tag_at t 0 = JStr ''book''
        then [\<lparr>eventId = tag_at t 1, status = tag_at t 2, progress = tag_at t 3,
               completedDate = tag_at t 4\<rparr>]
        else [])"
  by (simp add: fetchUserBookshelves_tag_def)

lemma forEach_fetchUserBookshelves_books:
  "\<exists>s'. forEach fetchUserBookshelves_tag s ts = Inr s' \<and>
     bs_books s' = bs_books s @
       map (\<lambda>t. \<lparr>eventId = tag_at t 1, status = tag_at t 2, progress = tag_at t 3,
                  completedDate = tag_at t 4\<rparr>)
         (filter (\<lambda>t. tag_at t 0 = JStr ''book'') ts)"
proof (induction ts arbitrary: s)
  case Nil
  show ?case by simp
next
  case (Cons t ts)
  obtain s1 where s1: "fetchUserBookshelves_tag s t = Inr s1"
    and b1: "bs_books s1 = bs_books s @
       (if tag_at t 0 = JStr ''book''
        then [\<lparr>eventId = tag_at t 1, status = tag_at t 2, progress = tag_at t 3,
               completedDate = tag_at t 4\<rparr>]
        else [])"
    using fetchUserBookshelves_tag_books [of s t] by blast
  from Cons [of s1] s1 b1 show ?case by auto
qed

lemma fetchUserBookshelves_event_books:
  "\<exists>shelf. fetchUserBookshelves_event ev = Inr shelf \<and>
     bs_books shelf =
       map (\<lambda>t. \<lparr>eventId = tag_at t 1, status = tag_at t 2, progress = tag_at t 3,
                  completedDate = tag_at t 4\<rparr>)
         (filter (\<lambda>t. tag_at t 0 = JStr ''book'') (ev_tags ev))"
  using forEach_fetchUserBookshelves_books [of "newBookshelf ev" "ev_tags ev"]
  by (simp add: fetchUserBookshelves_event_def newBookshelf_def)


lemmas fetchUserBookshelves_eval =
  fetchUserBookshelves_event_def newBookshelf_def fetchUserBookshelves_tag_def tag_at_def
  relay_event_def


text \<open>
  C6. Tags with a key the decoder does not recognise are claimed to be kept for every
  decoded event. The decoder of bookshelves has no catch-all mapping: the bookshelf
  decoded from an event with the tag \<^verbatim>\<open>[custom, "x", "y"]\<close> is the one decoded from the
  event without it.
\<close>

theorem C6_counterexample_bookshelf_discards_unknown_tags:
  "fetchUserBookshelves_event custom_shelf = fetchUserBookshelves_event plain_shelf
   \<and> fetchUserBookshelves_event custom_shelf =
       Inr \<lparr>bs_id = JStr ''id'', bs_pubkey = JStr ''A'', bs_created_at = 0, bs_notes = JStr '''',
            bs_books = [], bs_uniqueId = JStr ''shelf'', bs_name = JUndefined,
            bs_description = JUndefined\<rparr>"
  by (simp add: custom_shelf_def plain_shelf_def fetchUserBookshelves_eval)

text \<open>
  C6, as amended. Whenever the decoder of books returns a book, every key \<open>k\<close> without a
  branch of its own is bound in \<open>book.tags\<close> to the argument lists of the tags keyed
  \<open>k\<close>, in the order of the tags, and is unbound when there is no such tag; the decoder
  returns a book for every event without a tag keyed by a name inherited from
  \<^verbatim>\<open>Object.prototype\<close>. The tag \<^verbatim>\<open>[custom, "x", "y"]\<close> of a book event is found under
  \<open>custom\<close> as \<^verbatim>\<open>["x", "y"]\<close>.
\<close>

theorem C6_unknown_book_tags_kept_in_catch_all:
  "(fetchBooks_event ev = Inr b \<and> k \<notin> set recognised_keys \<longrightarrow>
      bk_tags b k =
        (case filter (\<lambda>t. ToString (tag_at t 0) = k) (ev_tags ev) of
           [] \<Rightarrow> None
         | g # gs \<Rightarrow> Some (map slice1 (g # gs))))
   \<and> ((\<forall>t \<in> set (ev_tags ev). ToString (tag_at t 0) \<notin> set Object_prototype_keys) \<longrightarrow>
        (\<exists>b'. fetchBooks_event ev = Inr b'))"
proof (intro conjI impI)
  assume h: "fetchBooks_event ev = Inr b \<and> k \<notin> set recognised_keys"
  then have "forEach fetchBooks_tag (newBook ev) (ev_tags ev) = Inr b"
    by (simp add: fetchBooks_event_def)
  from forEach_fetchBooks_tags [OF this] h
  show "bk_tags b k =
        (case filter (\<lambda>t. ToString (tag_at t 0) = k) (ev_tags ev) of
           [] \<Rightarrow> None
         | g # gs \<Rightarrow> Some (map slice1 (g # gs)))"
    by (simp add: newBook_def split: list.splits)
next
  assume "\<forall>t \<in> set (ev_tags ev). ToString (tag_at t 0) \<notin> set Object_prototype_keys"
  then show "\<exists>b'. fetchBooks_event ev = Inr b'" by (rule fetchBooks_event_returns)
qed

theorem C6_witness:
  "\<exists>b. fetchBooks_event custom_book = Inr b \<and> bk_tags b ''custom'' = Some [[JStr ''x'', JStr ''y'']]"
proof -
  have "\<forall>t \<in> set (ev_tags custom_book). ToString (tag_at t 0) \<notin> set Object_prototype_keys"
    by (simp add: custom_book_def tag_at_def Object_prototype_keys_def)
  with C6_unknown_book_tags_kept_in_catch_all [of custom_book]
  obtain b where b: "fetchBooks_event custom_book = Inr b" by blast
  with C6_unknown_book_tags_kept_in_catch_all [of custom_book b "''custom''"]
  have "bk_tags b ''custom'' = Some [[JStr ''x'', JStr ''y'']]"
    by (simp add: custom_book_def tag_at_def recognised_keys_def slice1_def)
  with b show ?thesis by blast
qed

section \<open>The encoders\<close>

lemma ev_tags_makeEvent [simp]: "ev_tags (makeEvent e pk kind tags content) = tags"
  by (simp add: makeEvent_def Let_def)

lemma ev_content_makeEvent [simp]: "ev_content (makeEvent e pk kind tags content) = content"
  by (simp add: makeEvent_def Let_def)

lemma fetchBooks_tag_genre:
  "fetchBooks_tag b [JStr ''genre'', g] =
     Inr (b\<lparr>bk_genres := Some ((case bk_genres b of None \<Rightarrow> [] | Some old \<Rightarrow> old) @ [g])\<rparr>)"
  by (simp add: fetchBooks_tag_def tag_at_def)

lemma forEach_genre_tags:
  "forEach fetchBooks_tag b (map (\<lambda>genre. [JStr ''genre'', genre]) gs) =
     Inr (if gs = [] then b
          else b\<lparr>bk_genres := Some ((case bk_genres b of None \<Rightarrow> [] | Some old \<Rightarrow> old) @ gs)\<rparr>)"
proof (induction gs arbitrary: b)
  case Nil
  show ?case by simp
next
  case (Cons g gs)
  show ?case by (simp add: fetchBooks_tag_genre Cons)
qed

lemma createBookEvent_tags:
  assumes "bd_authors B = Some authors"
  shows "\<exists>ev. createBookEvent e pk B = Inr ev \<and>
     ev_content ev = (if truthy (bd_description B) then bd_description B else JStr '''') \<and>
     ev_tags ev =
       [[JStr ''d'', bd_id B], [JStr ''title'', bd_title B], JStr ''authors'' # authors,
        [JStr ''isbn'', if truthy (bd_isbn B) then bd_isbn B else JStr ''''],
        [JStr ''published'', if truthy (bd_publishDate B) then bd_publishDate B else JStr ''''],
        [JStr ''publisher'', if truthy (bd_publisher B) then bd_publisher B else JStr ''''],
        [JStr ''cover'', if truthy (bd_coverUrl B) then bd_coverUrl B else JStr '''']]
       @ map (\<lambda>genre. [JStr ''genre'', genre]) (case bd_genres B of None \<Rightarrow> [] | Some gs \<Rightarrow> gs)
       @ (if truthy (bd_summary B) then [[JStr ''summary'', bd_summary B]] else [])"
  using assms
  by (simp add: createBookEvent_def Let_def js_or_def split: option.splits)

lemmas createBookEvent_eval =
  createBookEvent_def makeEvent_def example_env_def js_or_def Let_def

text \<open>
  C2. The encoder of books is claimed to leave out the tag of a single-value field that is
  absent or empty. For a book whose \<open>isbn\<close> is the empty string and whose
  \<open>publishDate\<close>, \<open>publisher\<close> and \<open>coverUrl\<close> are absent, the event has the
  tags \<^verbatim>\<open>["isbn", ""]\<close>, \<^verbatim>\<open>["published", ""]\<close>, \<^verbatim>\<open>["publisher", ""]\<close> and
  \<^verbatim>\<open>["cover", ""]\<close>.
\<close>

theorem C2_counterexample_empty_tags_emitted:
  "createBookEvent example_env (JStr ''nsec'') empty_isbn_book =
     Inr \<lparr>ev_kind = 30051, ev_created_at = 1700000000,
          ev_tags = [[JStr ''d'', JStr ''dune''], [JStr ''title'', JStr ''Dune''],
                     [JStr ''authors'', JStr ''Frank Herbert''], [JStr ''isbn'', JStr ''''],
                     [JStr ''published'', JStr ''''], [JStr ''publisher'', JStr ''''],
                     [JStr ''cover'', JStr '''']],
          ev_content = JStr '''', ev_pubkey = JStr ''pubkey'', ev_id = JStr ''id'',
          ev_sig = JStr ''sig''\<rparr>"
  by (simp add: empty_isbn_book_def createBookEvent_eval)

text \<open>
  C2, as amended. For every book whose \<open>authors\<close> is an array, the tags of the event
  are exactly: the seven tags \<open>d\<close>, \<open>title\<close>, \<open>authors\<close>, \<open>isbn\<close>,
  \<open>published\<close>, \<open>publisher\<close> and \<open>cover\<close>, where each of the last four carries
  the value of its field when that is truthy and the empty string otherwise; then one tag
  \<open>genre\<close> for each element of \<open>genres\<close>, in order, and none when \<open>genres\<close> is
  absent or empty; then the tag \<open>summary\<close> when the summary is truthy, and nothing
  otherwise.
\<close>

theorem C2_book_tags_always_emitted:
  "bd_authors B = Some authors \<longrightarrow>
     (\<exists>ev. createBookEvent e pk B = Inr ev
        \<and> ev_tags ev =
            [[JStr ''d'', bd_id B], [JStr ''title'', bd_title B], JStr ''authors'' # authors,
             [JStr ''isbn'', if truthy (bd_isbn B) then bd_isbn B else JStr ''''],
             [JStr ''published'', if truthy (bd_publishDate B) then bd_publishDate B else JStr ''''],
             [JStr ''publisher'', if truthy (bd_publisher B) then bd_publisher B else JStr ''''],
             [JStr ''cover'', if truthy (bd_coverUrl B) then bd_coverUrl B else JStr '''']]
            @ map (\<lambda>genre. [JStr ''genre'', genre])
                (case bd_genres B of None \<Rightarrow> [] | Some genres \<Rightarrow> genres)
            @ (if truthy (bd_summary B) then [[JStr ''summary'', bd_summary B]] else []))"
proof
  assume a: "bd_authors B = Some authors"
  from createBookEvent_tags [OF a, of e pk]
  show "\<exists>ev. createBookEvent e pk B = Inr ev
        \<and> ev_tags ev =
            [[JStr ''d'', bd_id B], [JStr ''title'', bd_title B], JStr ''authors'' # authors,
             [JStr ''isbn'', if truthy (bd_isbn B) then bd_isbn B else JStr ''''],
             [JStr ''published'', if truthy (bd_publishDate B) then bd_publishDate B else JStr ''''],
             [JStr ''publisher'', if truthy (bd_publisher B) then bd_publisher B else JStr ''''],
             [JStr ''cover'', if truthy (bd_coverUrl B) then bd_coverUrl B else JStr '''']]
            @ map (\<lambda>genre. [JStr ''genre'', genre])
                (case bd_genres B of None \<Rightarrow> [] | Some genres \<Rightarrow> genres)
            @ (if truthy (bd_summary B) then [[JStr ''summary'', bd_summary B]] else [])"
    by blast
qed

theorem C2_witness:
  "(\<exists>ev. createBookEvent example_env (JStr ''nsec'') empty_isbn_book = Inr ev
      \<and> ev_tags ev =
          [[JStr ''d'', JStr ''dune''], [JStr ''title'', JStr ''Dune''],
           [JStr ''authors'', JStr ''Frank Herbert''], [JStr ''isbn'', JStr ''''],
           [JStr ''published'', JStr ''''], [JStr ''publisher'', JStr ''''],
           [JStr ''cover'', JStr '''']])
   \<and> (\<exists>ev. createBookEvent example_env (JStr ''nsec'') dune = Inr ev
      \<and> ev_tags ev =
          [[JStr ''d'', JStr ''dune-frank-herbert''], [JStr ''title'', JStr ''Dune''],
           [JStr ''authors'', JStr ''Frank Herbert''], [JStr ''isbn'', JStr ''9780441172719''],
           [JStr ''published'', JStr ''1965-08-01''], [JStr ''publisher'', JStr ''Ace Books''],
           [JStr ''cover'', JStr ''https://covers.openlibrary.org/b/id/8643691-L.jpg''],
           [JStr ''genre'', JStr ''science fiction''], [JStr ''genre'', JStr ''fantasy''],
           [JStr ''genre'', JStr ''classic'']])"
  using C2_book_tags_always_emitted
      [of empty_isbn_book "[JStr ''Frank Herbert'']" example_env "JStr ''nsec''"]
    C2_book_tags_always_emitted [of dune "[JStr ''Frank Herbert'']" example_env "JStr ''nsec''"]
  by (auto simp: empty_isbn_book_def dune_def)

text \<open>
  C1. Decoding the encoded book is claimed to give back every field, with an empty string
  decoded as absent. For a book whose \<open>isbn\<close> is the empty string and whose other
  optional fields are absent, the decoded \<open>isbn\<close>, \<open>publishDate\<close>, \<open>publisher\<close>,
  \<open>coverUrl\<close> and \<open>description\<close> are all the empty string, not absent.
\<close>

theorem C1_counterexample_empty_isbn_decodes_to_empty_string:
  "roundtrip_book example_env (JStr ''nsec'') empty_isbn_book =
     Inr \<lparr>bk_id = JStr ''id'', bk_pubkey = JStr ''pubkey'', bk_created_at = 1700000000,
          bk_description = JStr '''', bk_tags = Map.empty, bk_uniqueId = JStr ''dune'',
          bk_title = JStr ''Dune'', bk_authors = Some [JStr ''Frank Herbert''],
          bk_isbn = JStr '''', bk_publishDate = JStr '''', bk_publisher = JStr '''',
          bk_coverUrl = JStr '''', bk_genres = None, bk_summary = JUndefined\<rparr>"
  by (simp add: roundtrip_book_def empty_isbn_book_def createBookEvent_eval fetchBooks_event_def
      newBook_def fetchBooks_tag_def tag_at_def slice1_def)

text \<open>
  C1, as amended. For every book whose \<open>authors\<close> is an array, decoding the encoded
  event returns a book with the \<open>id\<close> (as \<open>uniqueId\<close>), the \<open>title\<close> and the
  \<open>authors\<close> of the input; \<open>isbn\<close>, \<open>publishDate\<close>, \<open>publisher\<close>,
  \<open>coverUrl\<close> and \<open>description\<close> are those of the input when truthy and the empty
  string otherwise; \<open>genres\<close> is that of the input when it is a non-empty array and
  absent otherwise; \<open>summary\<close> is that of the input when truthy and absent otherwise;
  and no other tag is stored.
\<close>

theorem C1_book_round_trip:
  "bd_authors B = Some authors \<longrightarrow>
     (\<exists>bk. roundtrip_book e pk B = Inr bk
        \<and> bk_uniqueId bk = bd_id B
        \<and> bk_title bk = bd_title B
        \<and> bk_authors bk = Some authors
        \<and> bk_isbn bk = (if truthy (bd_isbn B) then bd_isbn B else JStr '''')
        \<and> bk_publishDate bk = (if truthy (bd_publishDate B) then bd_publishDate B else JStr '''')
        \<and> bk_publisher bk = (if truthy (bd_publisher B) then bd_publisher B else JStr '''')
        \<and> bk_coverUrl bk = (if truthy (bd_coverUrl B) then bd_coverUrl B else JStr '''')
        \<and> bk_genres bk = (case bd_genres B of None \<Rightarrow> None
                           | Some gs \<Rightarrow> if gs = [] then None else Some gs)
        \<and> bk_summary bk = (if truthy (bd_summary B) then bd_summary B else JUndefined)
        \<and> bk_description bk = (if truthy (bd_description B) then bd_description B else JStr '''')
        \<and> bk_tags bk = Map.empty)"
proof
  assume a: "bd_authors B = Some authors"
  from createBookEvent_tags [OF a, of e pk] obtain ev
    where ev: "createBookEvent e pk B = Inr ev"
      and content: "ev_content ev = (if truthy (bd_description B) then bd_description B else JStr '''')"
      and tags: "ev_tags ev =
       [[JStr ''d'', bd_id B], [JStr ''title'', bd_title B], JStr ''authors'' # authors,
        [JStr ''isbn'', if truthy (bd_isbn B) then bd_isbn B else JStr ''''],
        [JStr ''published'', if truthy (bd_publishDate B) then bd_publishDate B else JStr ''''],
        [JStr ''publisher'', if truthy (bd_publisher B) then bd_publisher B else JStr ''''],
        [JStr ''cover'', if truthy (bd_coverUrl B) then bd_coverUrl B else JStr '''']]
       @ map (\<lambda>genre. [JStr ''genre'', genre]) (case bd_genres B of None \<Rightarrow> [] | Some gs \<Rightarrow> gs)
       @ (if truthy (bd_summary B) then [[JStr ''summary'', bd_summary B]] else [])"
    by blast
  have rt: "roundtrip_book e pk B = fetchBooks_event ev"
    by (simp add: roundtrip_book_def ev)
  show "\<exists>bk. roundtrip_book e pk B = Inr bk
        \<and> bk_uniqueId bk = bd_id B
        \<and> bk_title bk = bd_title B
        \<and> bk_authors bk = Some authors
        \<and> bk_isbn bk = (if truthy (bd_isbn B) then bd_isbn B else JStr '''')
        \<and> bk_publishDate bk = (if truthy (bd_publishDate B) then bd_publishDate B else JStr '''')
        \<and> bk_publisher bk = (if truthy (bd_publisher B) then bd_publisher B else JStr '''')
        \<and> bk_coverUrl bk = (if truthy (bd_coverUrl B) then bd_coverUrl B else JStr '''')
        \<and> bk_genres bk = (case bd_genres B of None \<Rightarrow> None
                           | Some gs \<Rightarrow> if gs = [] then None else Some gs)
        \<and> bk_summary bk = (if truthy (bd_summary B) then bd_summary B else JUndefined)
        \<and> bk_description bk = (if truthy (bd_description B) then bd_description B else JStr '''')
        \<and> bk_tags bk = Map.empty"
    unfolding rt fetchBooks_event_def tags
    by (simp add: forEach_append forEach_genre_tags content newBook_def fetchBooks_tag_def
        tag_at_def slice1_def split: option.splits)
qed

theorem C1_witness:
  "\<exists>bk. roundtrip_book example_env (JStr ''nsec'') dune = Inr bk
     \<and> bk_uniqueId bk = JStr ''dune-frank-herbert''
     \<and> bk_title bk = JStr ''Dune''
     \<and> bk_authors bk = Some [JStr ''Frank Herbert'']
     \<and> bk_isbn bk = JStr ''9780441172719''
     \<and> bk_genres bk = Some [JStr ''science fiction'', JStr ''fantasy'', JStr ''classic'']
     \<and> bk_summary bk = JUndefined
     \<and> bk_description bk = JStr ''Set on the desert planet Arrakis''"
  using C1_book_round_trip [of dune "[JStr ''Frank Herbert'']" example_env "JStr ''nsec''"]
  by (auto simp: dune_def)

lemmas createBookReviewEvent_eval =
  createBookReviewEvent_def makeEvent_def example_env_def js_or_def Let_def

text \<open>
  C4. The encoder of reviews is claimed to fail with a ValidationError when \<open>rating\<close>
  is no base-10 integer or \<open>bookEventId\<close> is absent. It validates nothing: with the
  rating \<^verbatim>\<open>"abc"\<close> it returns an event with the tag \<^verbatim>\<open>["rating", "abc"]\<close>, and
  without \<open>bookEventId\<close> it returns an event with the tag \<^verbatim>\<open>["e", undefined]\<close>.
\<close>

theorem C4_counterexample_no_validation:
  "createBookReviewEvent example_env (JStr ''nsec'') review_rated_abc =
     Inr \<lparr>ev_kind = 30053, ev_created_at = 1700000000,
          ev_tags = [[JStr ''e'', JStr ''id''], [JStr ''rating'', JStr ''abc''],
                     [JStr ''subject'', JStr ''A timeless masterpiece'']],
          ev_content = JStr ''A triumph'', ev_pubkey = JStr ''pubkey'', ev_id = JStr ''id'',
          ev_sig = JStr ''sig''\<rparr>
   \<and> createBookReviewEvent example_env (JStr ''nsec'') review_without_book =
     Inr \<lparr>ev_kind = 30053, ev_created_at = 1700000000,
          ev_tags = [[JStr ''e'', JUndefined], [JStr ''rating'', JStr ''5''],
                     [JStr ''subject'', JStr ''A timeless masterpiece'']],
          ev_content = JStr ''A triumph'', ev_pubkey = JStr ''pubkey'', ev_id = JStr ''id'',
          ev_sig = JStr ''sig''\<rparr>"
  by (simp add: review_rated_abc_def review_without_book_def myReview_def
      createBookReviewEvent_eval int_toString_def digits.simps)

lemma toString_cases:
  "toString v = (if v = JUndefined \<or> v = JNull then Inl TypeError else Inr (JStr (ToString v)))"
  by (cases v) simp_all

text \<open>
  C4, as amended. The encoder of reviews fails exactly when \<open>rating\<close> is
  \<^verbatim>\<open>undefined\<close> or \<^verbatim>\<open>null\<close>, with the TypeError of calling \<^verbatim>\<open>toString\<close> on it.
  For every other input it returns an event whose first two tags are
  \<^verbatim>\<open>["e", bookEventId]\<close> and \<^verbatim>\<open>["rating", String(rating)]\<close>, and when \<open>readDate\<close>
  is absent no tag of the event is keyed \<open>read\<close>.
\<close>

theorem C4_review_encoder_fails_only_without_rating:
  "(rd_rating R = JUndefined \<or> rd_rating R = JNull \<longrightarrow>
      createBookReviewEvent e pk R = Inl TypeError)
   \<and> (rd_rating R \<noteq> JUndefined \<and> rd_rating R \<noteq> JNull \<longrightarrow>
        (\<exists>ev. createBookReviewEvent e pk R = Inr ev
           \<and> take 2 (ev_tags ev) =
               [[JStr ''e'', rd_bookEventId R], [JStr ''rating'', JStr (ToString (rd_rating R))]]
           \<and> (\<not> truthy (rd_readDate R) \<longrightarrow>
                (\<forall>t \<in> set (ev_tags ev). tag_at t 0 \<noteq> JStr ''read''))))"
  by (auto simp: createBookReviewEvent_def toString_cases Let_def tag_at_def)

theorem C4_witness:
  "createBookReviewEvent example_env (JStr ''nsec'') review_without_rating = Inl TypeError
   \<and> (\<exists>ev. createBookReviewEvent example_env (JStr ''nsec'') myReview = Inr ev
         \<and> take 2 (ev_tags ev) = [[JStr ''e'', JStr ''id''], [JStr ''rating'', JStr ''5'']]
         \<and> (\<forall>t \<in> set (ev_tags ev). tag_at t 0 \<noteq> JStr ''read''))"
  using C4_review_encoder_fails_only_without_rating
      [of review_without_rating example_env "JStr ''nsec''"]
    C4_review_encoder_fails_only_without_rating [of myReview example_env "JStr ''nsec''"]
  by (auto simp: review_without_rating_def myReview_def int_toString_def digits.simps)

lemma bookTag_key [simp]: "tag_at (bookTag b) 0 = JStr ''book''"
  by (simp add: bookTag_def tag_at_def Let_def)

lemma tag_at_Cons_0: "tag_at (x # xs) 0 = x"
  by (simp add: tag_at_def)

lemma createBookshelfEvent_tags:
  "\<exists>ev. createBookshelfEvent e pk sd = Inr ev \<and>
     ev_tags ev =
       [[JStr ''d'', sd_id sd], [JStr ''name'', sd_name sd]]
       @ (if truthy (sd_description sd) then [[JStr ''description'', sd_description sd]] else [])
       @ map bookTag (case sd_books sd of None \<Rightarrow> [] | Some books \<Rightarrow> books)"
  by (simp add: createBookshelfEvent_def Let_def split: option.splits)

lemma createBookshelfEvent_book_tags:
  "\<exists>ev. createBookshelfEvent e pk sd = Inr ev \<and>
     filter (\<lambda>t. tag_at t 0 = JStr ''book'') (ev_tags ev) =
       map bookTag (case sd_books sd of None \<Rightarrow> [] | Some books \<Rightarrow> books)"
proof -
  from createBookshelfEvent_tags [of e pk sd] obtain ev
    where ev: "createBookshelfEvent e pk sd = Inr ev"
      and tags: "ev_tags ev =
       [[JStr ''d'', sd_id sd], [JStr ''name'', sd_name sd]]
       @ (if truthy (sd_description sd) then [[JStr ''description'', sd_description sd]] else [])
       @ map bookTag (case sd_books sd of None \<Rightarrow> [] | Some books \<Rightarrow> books)"
    by blast
  have "filter (\<lambda>t. tag_at t 0 = JStr ''book'') (ev_tags ev) =
       map bookTag (case sd_books sd of None \<Rightarrow> [] | Some books \<Rightarrow> books)"
    unfolding tags by (simp add: tag_at_Cons_0 filter_map comp_def)
  with ev show ?thesis by blast
qed

text \<open>
  C10. For the entry \<open>i\<close> of a shelf whose \<open>progress\<close> is absent and whose
  \<open>completedDate\<close> is present, the tag of the entry is
  \<^verbatim>\<open>[book, eventId, status, completedDate]\<close>, and decoding the encoded shelf gives, at
  position \<open>i\<close>, an entry whose \<open>progress\<close> is the \<open>completedDate\<close> of the input and
  whose \<open>completedDate\<close> is absent.
\<close>

theorem C10_completedDate_decodes_as_progress:
  "sd_books sd = Some books \<and> i < length books
     \<and> \<not> truthy (sb_progress (books ! i)) \<and> truthy (sb_completedDate (books ! i)) \<longrightarrow>
   (\<exists>ev shelf. createBookshelfEvent e pk sd = Inr ev \<and> roundtrip_shelf e pk sd = Inr shelf
      \<and> filter (\<lambda>t. tag_at t 0 = JStr ''book'') (ev_tags ev) ! i =
          [JStr ''book'', sb_eventId (books ! i), sb_status (books ! i),
           sb_completedDate (books ! i)]
      \<and> length (bs_books shelf) = length books
      \<and> bs_books shelf ! i =
          \<lparr>eventId = sb_eventId (books ! i), status = sb_status (books ! i),
           progress = sb_completedDate (books ! i), completedDate = JUndefined\<rparr>)"
proof
  assume h: "sd_books sd = Some books \<and> i < length books
     \<and> \<not> truthy (sb_progress (books ! i)) \<and> truthy (sb_completedDate (books ! i))"
  from createBookshelfEvent_book_tags [of e pk sd] h obtain ev
    where ev: "createBookshelfEvent e pk sd = Inr ev"
      and tags: "filter (\<lambda>t. tag_at t 0 = JStr ''book'') (ev_tags ev) = map bookTag books"
    by auto
  from fetchUserBookshelves_event_books [of ev] obtain shelf
    where shelf: "fetchUserBookshelves_event ev = Inr shelf"
      and books: "bs_books shelf =
        map (\<lambda>t. \<lparr>eventId = tag_at t 1, status = tag_at t 2, progress = tag_at t 3,
                   completedDate = tag_at t 4\<rparr>)
          (filter (\<lambda>t. tag_at t 0 = JStr ''book'') (ev_tags ev))"
    by blast
  have t: "bookTag (books ! i) =
          [JStr ''book'', sb_eventId (books ! i), sb_status (books ! i),
           sb_completedDate (books ! i)]"
    using h by (simp add: bookTag_def Let_def)
  have 1: "roundtrip_shelf e pk sd = Inr shelf"
    by (simp add: roundtrip_shelf_def ev shelf)
  have 2: "filter (\<lambda>t. tag_at t 0 = JStr ''book'') (ev_tags ev) ! i =
          [JStr ''book'', sb_eventId (books ! i), sb_status (books ! i),
           sb_completedDate (books ! i)]"
    using h by (simp add: tags t)
  have books': "bs_books shelf =
        map (\<lambda>t. \<lparr>eventId = tag_at t 1, status = tag_at t 2, progress = tag_at t 3,
                   completedDate = tag_at t 4\<rparr>) (map bookTag books)"
    by (simp only: books tags)
  have 3: "length (bs_books shelf) = length books"
    by (simp add: books')
  have 4: "bs_books shelf ! i =
          \<lparr>eventId = sb_eventId (books ! i), status = sb_status (books ! i),
           progress = sb_completedDate (books ! i), completedDate = JUndefined\<rparr>"
    using h by (simp add: books' t tag_at_def)
  from ev 1 2 3 4 show "\<exists>ev shelf. createBookshelfEvent e pk sd = Inr ev \<and> roundtrip_shelf e pk sd = Inr shelf
      \<and> filter (\<lambda>t. tag_at t 0 = JStr ''book'') (ev_tags ev) ! i =
          [JStr ''book'', sb_eventId (books ! i), sb_status (books ! i),
           sb_completedDate (books ! i)]
      \<and> length (bs_books shelf) = length books
      \<and> bs_books shelf ! i =
          \<lparr>eventId = sb_eventId (books ! i), status = sb_status (books ! i),
           progress = sb_completedDate (books ! i), completedDate = JUndefined\<rparr>"
    by blast
qed

theorem C10_witness:
  "\<exists>shelf. roundtrip_shelf example_env (JStr ''nsec'') myShelf = Inr shelf
     \<and> bs_books shelf =
         [\<lparr>eventId = JStr ''id'', status = JStr ''read'', progress = JStr ''2023-05-15'',
           completedDate = JUndefined\<rparr>]"
proof -
  from C10_completedDate_decodes_as_progress
    [of myShelf "[\<lparr>sb_eventId = JStr ''id'', sb_status = JStr ''read'',
                    sb_progress = JUndefined, sb_completedDate = JStr ''2023-05-15''\<rparr>]"
        0 example_env "JStr ''nsec''"]
  obtain shelf where "roundtrip_shelf example_env (JStr ''nsec'') myShelf = Inr shelf"
    and "length (bs_books shelf) = 1"
    and "bs_books shelf ! 0 = \<lparr>eventId = JStr ''id'', status = JStr ''read'',
          progress = JStr ''2023-05-15'', completedDate = JUndefined\<rparr>"
    by (auto simp: myShelf_def)
  then show ?thesis by (cases "bs_books shelf") auto
qed

end
